theory Spec2Isabelle
  imports Complex_Main "HOL-Library.Word" "HOL-Library.Multiset" "HOL-Library.Monad_Syntax"
begin

unbundle bit_operations_syntax

section \<open>Data model\<close>

text \<open>
  The placement package of the scheduling controller fits the peers of a region to an
  ordered list of placement rules. This theory embeds the fit result model
  (\<open>RegionFit\<close>, \<open>RuleFit\<close>), the comparators, the isolation scorer, the peer ordering,
  the replacement check and the backtracking search (\<open>fitWorker\<close>).

  Conventions.
  \<^item> \<open>uint64\<close> identifiers and the \<open>uint\<close> subset masks are 64-bit words; Go's \<open>int\<close>
    values (rule counts, comparison results) are integers.
  \<^item> A Go pointer that may be \<open>nil\<close> is an \<open>option\<close>.
  \<^item> A result of type \<open>'a option\<close> is \<open>None\<close> when the Go call yields no value: a
    run-time panic (nil dereference, index out of range, negative shift count) or a loop
    that never ends.
  \<^item> \<open>IsolationScore\<close> is a \<open>float64\<close> in the source. It is embedded as a real number:
    the values the scorer adds are powers of 100, and the embedding is exact as long as
    the sums stay below \<open>2^53\<close>.
  \<^item> The read/write-locked \<open>cached\<close> flag of \<open>RegionFit\<close> is not part of the embedding.
\<close>

type_synonym uint64 = "64 word"

text \<open>\<open>metapb.Peer\<close>. Modelled from the spec: the protobuf declaration is not part of the
  sources; a peer has an identifier, a hosting store, a voter/learner role marker
  (what \<open>core.IsLearner\<close> reads) and a witness flag.\<close>

record Peer =
  Id :: uint64
  StoreId :: uint64
  IsLearner :: bool
  PeerIsWitness :: bool

text \<open>\<open>core.StoreInfo\<close>. Modelled from the spec: a store has a numeric identifier and a
  mapping of label keys to values.\<close>

record StoreInfo =
  ID :: uint64
  Labels :: "(string \<times> string) list"

text \<open>\<open>core.RegionInfo\<close>. Modelled from the spec: a region has its replicas, a designated
  leader (possibly absent) and the sets of down and pending replicas.\<close>

record RegionInfo =
  GetPeers :: "Peer list"
  GetLeader :: "Peer option"
  downPeers :: "Peer list"
  pendingPeers :: "Peer list"

text \<open>\<open>PeerRoleType\<close> is a string type in the source with four named values; every other
  value takes the default branch of \<open>matchRoleStrict\<close>.\<close>

datatype PeerRoleType = Voter | Leader | Follower | Learner | OtherRole

text \<open>\<open>Rule\<close>. Modelled from the spec: the declaration is not part of the sources. The
  label constraints are opaque (type \<open>'c\<close>); only the constraint oracle reads them.\<close>

record 'c Rule =
  Count :: int
  Role :: PeerRoleType
  LabelConstraints :: 'c
  LocationLabels :: "string list"
  IsWitness :: bool

record 'c RuleFit =
  Rule :: "'c Rule"
  Peers :: "Peer list"
  PeersWithDifferentRole :: "Peer list"
  IsolationScore :: real

record 'c RegionFit =
  RuleFits :: "'c RuleFit option list"
  OrphanPeers :: "Peer list"
  regionStores :: "StoreInfo list"
  rules :: "'c Rule list"

record fitPeer =
  Peer :: Peer
  store :: "StoreInfo option"
  isLeader :: bool
  selected :: bool

text \<open>The constraint oracle \<open>MatchLabelConstraints\<close> and the location comparison
  \<open>CompareLocation\<close> are external to the fitting engine. The functions below take them as
  parameters \<open>mlc\<close> and \<open>cmpl\<close>.\<close>

type_synonym 'c matchOracle = "StoreInfo option \<Rightarrow> 'c \<Rightarrow> bool"
type_synonym locationOracle = "StoreInfo option \<Rightarrow> StoreInfo option \<Rightarrow> string list \<Rightarrow> int"

section \<open>Fit result model\<close>

text \<open>\<open>RuleFit.IsSatisfied\<close>\<close>

definition RuleFit_IsSatisfied :: "'c RuleFit \<Rightarrow> bool" where
  "RuleFit_IsSatisfied f \<longleftrightarrow>
     int (length (Peers f)) = Count (Rule f) \<and> length (PeersWithDifferentRole f) = 0"

text \<open>The loop of \<open>RegionFit.IsSatisfied\<close>: it stops with \<open>false\<close> at the first rule fit that
  is not satisfied; calling \<open>IsSatisfied\<close> on a nil entry dereferences nil.\<close>

fun allRuleFitsSatisfied :: "'c RuleFit option list \<Rightarrow> bool option" where
  "allRuleFitsSatisfied [] = Some True"
| "allRuleFitsSatisfied (None # rs) = None"
| "allRuleFitsSatisfied (Some r # rs) =
     (if \<not> RuleFit_IsSatisfied r then Some False else allRuleFitsSatisfied rs)"

text \<open>\<open>RegionFit.IsSatisfied\<close>\<close>

definition RegionFit_IsSatisfied :: "'c RegionFit \<Rightarrow> bool option" where
  "RegionFit_IsSatisfied f =
     (if length (RuleFits f) = 0 then Some False
      else case allRuleFitsSatisfied (RuleFits f) of
             None \<Rightarrow> None
           | Some False \<Rightarrow> Some False
           | Some True \<Rightarrow> Some (length (OrphanPeers f) = 0))"

text \<open>\<open>RuleFit.contain\<close>\<close>

fun contain_peers :: "Peer list \<Rightarrow> uint64 \<Rightarrow> bool" where
  "contain_peers [] storeID = False"
| "contain_peers (p # ps) storeID = (if StoreId p = storeID then True else contain_peers ps storeID)"

definition contain :: "'c RuleFit \<Rightarrow> uint64 \<Rightarrow> bool" where
  "contain f storeID = contain_peers (Peers f) storeID"

text \<open>\<open>RegionFit.getRuleFitByStoreID\<close>: the first rule fit with a peer on the store;
  \<open>Some None\<close> is the nil result, \<open>None\<close> the nil dereference at an absent entry.\<close>

fun getRuleFitByStoreID_loop :: "'c RuleFit option list \<Rightarrow> uint64 \<Rightarrow> 'c RuleFit option option" where
  "getRuleFitByStoreID_loop [] storeID = Some None"
| "getRuleFitByStoreID_loop (None # rfs) storeID = None"
| "getRuleFitByStoreID_loop (Some rf # rfs) storeID =
     (if contain_peers (Peers rf) storeID then Some (Some rf)
      else getRuleFitByStoreID_loop rfs storeID)"

definition getRuleFitByStoreID :: "'c RegionFit \<Rightarrow> uint64 \<Rightarrow> 'c RuleFit option option" where
  "getRuleFitByStoreID f storeID = getRuleFitByStoreID_loop (RuleFits f) storeID"

text \<open>\<open>compareRuleFit\<close>\<close>

definition compareRuleFit :: "'c RuleFit \<Rightarrow> 'c RuleFit \<Rightarrow> int" where
  "compareRuleFit a b =
     (if length (Peers a) < length (Peers b) then - 1
      else if length (Peers a) > length (Peers b) then 1
      else if length (PeersWithDifferentRole a) > length (PeersWithDifferentRole b) then - 1
      else if length (PeersWithDifferentRole a) < length (PeersWithDifferentRole b) then 1
      else if IsolationScore a < IsolationScore b then - 1
      else if IsolationScore a > IsolationScore b then 1
      else 0)"

section \<open>Role matching and the isolation scorer\<close>

text \<open>\<open>fitPeer.matchRoleStrict\<close>\<close>

fun matchRoleStrict :: "fitPeer \<Rightarrow> PeerRoleType \<Rightarrow> bool" where
  "matchRoleStrict p Voter = (\<not> IsLearner (Peer p))"
| "matchRoleStrict p Leader = isLeader p"
| "matchRoleStrict p Follower = (\<not> IsLearner (Peer p) \<and> \<not> isLeader p)"
| "matchRoleStrict p Learner = IsLearner (Peer p)"
| "matchRoleStrict p OtherRole = False"

text \<open>The contribution of one pair in \<open>isolationScore\<close>: \<open>math.Pow(100, len(labels)-index-1)\<close>
  when \<open>CompareLocation\<close> returns an index other than \<open>-1\<close>.\<close>

definition pairScore :: "locationOracle \<Rightarrow> string list \<Rightarrow> fitPeer \<Rightarrow> fitPeer \<Rightarrow> real" where
  "pairScore cmpl labels p1 p2 =
     (let index = cmpl (store p1) (store p2) labels
      in if index \<noteq> - 1 then 100 powi (int (length labels) - index - 1) else 0)"

text \<open>The inner loop over \<open>peers[i+1:]\<close> and the outer loop over \<open>peers\<close>, with the running
  \<open>score\<close>.\<close>

fun isolationScore_inner :: "locationOracle \<Rightarrow> string list \<Rightarrow> fitPeer \<Rightarrow> fitPeer list \<Rightarrow> real \<Rightarrow> real" where
  "isolationScore_inner cmpl labels p1 [] score = score"
| "isolationScore_inner cmpl labels p1 (p2 # ps) score =
     isolationScore_inner cmpl labels p1 ps (score + pairScore cmpl labels p1 p2)"

fun isolationScore_outer :: "locationOracle \<Rightarrow> string list \<Rightarrow> fitPeer list \<Rightarrow> real \<Rightarrow> real" where
  "isolationScore_outer cmpl labels [] score = score"
| "isolationScore_outer cmpl labels (p1 # ps) score =
     isolationScore_outer cmpl labels ps (isolationScore_inner cmpl labels p1 ps score)"

definition isolationScore :: "locationOracle \<Rightarrow> fitPeer list \<Rightarrow> string list \<Rightarrow> real" where
  "isolationScore cmpl peers labels =
     (if length labels = 0 \<or> length peers \<le> 1 then 0
      else isolationScore_outer cmpl labels peers 0)"

text \<open>\<open>newRuleFit\<close>: the loop appends every peer to \<open>Peers\<close> and the peers that fail the strict
  role match, or are witnesses under a non-witness rule, to \<open>PeersWithDifferentRole\<close>.\<close>

fun newRuleFit_loop :: "'c Rule \<Rightarrow> fitPeer list \<Rightarrow> 'c RuleFit \<Rightarrow> 'c RuleFit" where
  "newRuleFit_loop rule [] rf = rf"
| "newRuleFit_loop rule (p # ps) rf =
     (let rf1 = rf\<lparr>Peers := Peers rf @ [Peer p]\<rparr>;
          rf2 = (if \<not> matchRoleStrict p (Role rule) \<or> (PeerIsWitness (Peer p) \<and> \<not> IsWitness rule)
                 then rf1\<lparr>PeersWithDifferentRole := PeersWithDifferentRole rf1 @ [Peer p]\<rparr>
                 else rf1)
      in newRuleFit_loop rule ps rf2)"

definition newRuleFit :: "locationOracle \<Rightarrow> 'c Rule \<Rightarrow> fitPeer list \<Rightarrow> 'c RuleFit" where
  "newRuleFit cmpl rule peers =
     newRuleFit_loop rule peers
       \<lparr>Rule = rule, Peers = [], PeersWithDifferentRole = [],
        IsolationScore = isolationScore cmpl peers (LocationLabels rule)\<rparr>"

section \<open>Peer ordering\<close>

text \<open>\<open>getStoreByID\<close>. Modelled from the spec: the helper is not part of the sources; it
  resolves the store with the given identifier, nil when there is none.\<close>

definition getStoreByID :: "StoreInfo list \<Rightarrow> uint64 \<Rightarrow> StoreInfo option" where
  "getStoreByID stores storeID = find (\<lambda>s. ID s = storeID) stores"

text \<open>\<open>RegionInfo.GetDownPeer\<close> and \<open>RegionInfo.GetPendingPeer\<close>. Modelled from the spec: the
  down and the pending replicas of the region, looked up by peer identifier.\<close>

definition GetDownPeer :: "RegionInfo \<Rightarrow> uint64 \<Rightarrow> Peer option" where
  "GetDownPeer region peerID = find (\<lambda>p. Id p = peerID) (downPeers region)"

definition GetPendingPeer :: "RegionInfo \<Rightarrow> uint64 \<Rightarrow> Peer option" where
  "GetPendingPeer region peerID = find (\<lambda>p. Id p = peerID) (pendingPeers region)"

text \<open>The protobuf getter \<open>GetId\<close> returns 0 on a nil peer.\<close>

definition GetId :: "Peer option \<Rightarrow> uint64" where
  "GetId p = (case p of None \<Rightarrow> 0 | Some q \<Rightarrow> Id q)"

text \<open>\<open>stateScore\<close>\<close>

definition stateScore :: "RegionInfo \<Rightarrow> uint64 \<Rightarrow> int" where
  "stateScore region peerID =
     (if GetDownPeer region peerID \<noteq> None then 0
      else if GetPendingPeer region peerID \<noteq> None then 1
      else 2)"

text \<open>\<open>replaceFitPeerOpt\<close>\<close>

definition replaceFitPeerOpt :: "uint64 \<Rightarrow> StoreInfo option \<Rightarrow> fitPeer \<Rightarrow> fitPeer" where
  "replaceFitPeerOpt srcStoreID dstStore peer =
     (if StoreId (Peer peer) = srcStoreID then peer\<lparr>store := dstStore\<rparr> else peer)"

text \<open>The \<open>less\<close> function that \<open>newFitPeer\<close> hands to \<open>sort.Slice\<close>.\<close>

definition peerLess :: "RegionInfo \<Rightarrow> fitPeer \<Rightarrow> fitPeer \<Rightarrow> bool" where
  "peerLess region p q =
     (let si = stateScore region (Id (Peer p)); sj = stateScore region (Id (Peer q))
      in si > sj \<or> (si = sj \<and> Id (Peer p) < Id (Peer q)))"

text \<open>\<open>sort.Slice\<close> is a library routine: it returns a permutation of the slice in which no
  element is \<open>less\<close> than an earlier one, and promises nothing about the order of elements
  that compare equal. It is embedded as the insertion sort the library runs on short
  slices: each element moves left while it is \<open>less\<close> than its predecessor
  (\<open>insertionStep\<close> works on the sorted prefix in reverse, nearest predecessor first).\<close>

fun insertionStep :: "('a \<Rightarrow> 'a \<Rightarrow> bool) \<Rightarrow> 'a \<Rightarrow> 'a list \<Rightarrow> 'a list" where
  "insertionStep lt x [] = [x]"
| "insertionStep lt x (y # ys) =
     (if lt x y then y # insertionStep lt x ys else x # y # ys)"

definition sortSlice :: "('a \<Rightarrow> 'a \<Rightarrow> bool) \<Rightarrow> 'a list \<Rightarrow> 'a list" where
  "sortSlice lt xs = rev (foldl (\<lambda>prefix x. insertionStep lt x prefix) [] xs)"

text \<open>The first loop of \<open>newFitPeer\<close>: resolve store and leader flag, then apply the options
  in order.\<close>

definition makeFitPeer :: "StoreInfo list \<Rightarrow> RegionInfo \<Rightarrow> (fitPeer \<Rightarrow> fitPeer) list \<Rightarrow> Peer \<Rightarrow> fitPeer" where
  "makeFitPeer stores region opts p =
     fold (\<lambda>opt peer. opt peer) opts
       \<lparr>Peer = p, store = getStoreByID stores (StoreId p),
        isLeader = (GetId (GetLeader region) = Id p), selected = False\<rparr>"

text \<open>\<open>newFitPeer\<close>\<close>

definition newFitPeer :: "StoreInfo list \<Rightarrow> RegionInfo \<Rightarrow> Peer list \<Rightarrow> (fitPeer \<Rightarrow> fitPeer) list \<Rightarrow> fitPeer list" where
  "newFitPeer stores region fitPeers opts =
     sortSlice (peerLess region) (map (makeFitPeer stores region opts) fitPeers)"

section \<open>Replacement check\<close>

text \<open>\<open>RegionFit.Replace\<close>. \<open>dstStore.GetID()\<close> dereferences the destination store.\<close>

definition Replace :: "'c matchOracle \<Rightarrow> locationOracle \<Rightarrow> 'c RegionFit \<Rightarrow> uint64 \<Rightarrow> StoreInfo option \<Rightarrow> RegionInfo \<Rightarrow> bool option" where
  "Replace mlc cmpl f srcStoreID dstStore region =
     (case getRuleFitByStoreID f srcStoreID of
        None \<Rightarrow> None
      | Some None \<Rightarrow> Some False
      | Some (Some fit) \<Rightarrow>
          if \<not> mlc dstStore (LabelConstraints (Rule fit)) then Some False
          else (case dstStore of
                  None \<Rightarrow> None
                | Some dst \<Rightarrow>
                    if contain fit (ID dst) then Some True
                    else let peers = newFitPeer (regionStores f) region (Peers fit)
                                       [replaceFitPeerOpt srcStoreID dstStore];
                             score = isolationScore cmpl peers (LocationLabels (Rule fit))
                         in Some (IsolationScore fit \<le> score)))"

section \<open>Fit search\<close>

record 'c fitWorker =
  w_stores :: "StoreInfo list"
  w_bestFit :: "'c RegionFit"
  w_peers :: "fitPeer list"
  w_rules :: "'c Rule list"
  w_needIsolation :: bool
  w_exit :: bool

text \<open>\<open>needIsolation\<close>\<close>

fun needIsolation :: "'c Rule list \<Rightarrow> bool" where
  "needIsolation [] = False"
| "needIsolation (rule # rs) = (if length (LocationLabels rule) > 0 then True else needIsolation rs)"

text \<open>\<open>checkRule\<close>. Modelled from the spec: the helper is not part of the sources; a rule
  passes when at least one store of the cluster matches its label constraints.\<close>

definition checkRule :: "'c matchOracle \<Rightarrow> 'c Rule \<Rightarrow> StoreInfo list \<Rightarrow> bool" where
  "checkRule mlc rule stores = list_ex (\<lambda>s. mlc (Some s) (LabelConstraints rule)) stores"

text \<open>\<open>newFitWorker\<close>: the rule fits start as \<open>len(rules)\<close> nil entries.\<close>

definition newFitWorker :: "StoreInfo list \<Rightarrow> RegionInfo \<Rightarrow> 'c Rule list \<Rightarrow> 'c fitWorker" where
  "newFitWorker stores region rs =
     \<lparr>w_stores = stores,
      w_bestFit = \<lparr>RuleFits = replicate (length rs) None, OrphanPeers = [],
                   regionStores = [], rules = []\<rparr>,
      w_peers = newFitPeer stores region (GetPeers region) [],
      w_rules = rs,
      w_needIsolation = needIsolation rs,
      w_exit = False\<rparr>"

text \<open>\<open>bits.OnesCount\<close> is a library routine: the number of one bits.\<close>

fun onesCount_nat :: "nat \<Rightarrow> nat" where
  "onesCount_nat n = (if n = 0 then 0 else n mod 2 + onesCount_nat (n div 2))"

declare onesCount_nat.simps [simp del]

definition OnesCount :: "64 word \<Rightarrow> int" where
  "OnesCount x = int (onesCount_nat (unat x))"

text \<open>A \<open>*fitPeer\<close> is a position in \<open>w.peers\<close>: the candidates and the selected peers are
  lists of positions, and setting \<open>p.selected\<close> updates the worker's peer at that position.\<close>

definition setSelected :: "bool \<Rightarrow> nat \<Rightarrow> fitPeer list \<Rightarrow> fitPeer list" where
  "setSelected b i ps = ps[i := (ps ! i)\<lparr>selected := b\<rparr>]"

text \<open>\<open>pickPeersFromBinaryInt\<close>: returns the picked positions and the peers with the picked
  ones marked selected.\<close>

fun pickPeersFromBinaryInt :: "nat list \<Rightarrow> 64 word \<Rightarrow> fitPeer list \<Rightarrow> nat list \<times> fitPeer list" where
  "pickPeersFromBinaryInt [] binaryNumber ps = ([], ps)"
| "pickPeersFromBinaryInt (p # candidates) binaryNumber ps =
     (let (sel, ps1) = (if binaryNumber AND 1 = 1 then ([p], setSelected True p ps) else ([], ps));
          binaryNumber1 = drop_bit 1 binaryNumber
      in if binaryNumber1 = 0 then (sel, ps1)
         else let (sel2, ps2) = pickPeersFromBinaryInt candidates binaryNumber1 ps1
              in (sel @ sel2, ps2))"

text \<open>\<open>unSelectPeers\<close>\<close>

fun unSelectPeers :: "nat list \<Rightarrow> fitPeer list \<Rightarrow> fitPeer list" where
  "unSelectPeers [] ps = ps"
| "unSelectPeers (p # seleted) ps = unSelectPeers seleted (setSelected False p ps)"

text \<open>\<open>fitWorker.updateOrphanPeers\<close>\<close>

definition updateOrphanPeers :: "nat \<Rightarrow> 'c fitWorker \<Rightarrow> 'c fitWorker" where
  "updateOrphanPeers index w =
     (if index \<noteq> length (w_rules w) then w
      else w\<lparr>w_bestFit := (w_bestFit w)
               \<lparr>OrphanPeers := map Peer (filter (\<lambda>p. \<not> selected p) (w_peers w))\<rparr>\<rparr>)"

text \<open>The candidates of \<open>fitRule\<close>: positions of the peers that are not selected and match
  the label constraints of the rule, none when \<open>checkRule\<close> fails.\<close>

definition candidatesOf :: "'c matchOracle \<Rightarrow> 'c fitWorker \<Rightarrow> 'c Rule \<Rightarrow> nat list" where
  "candidatesOf mlc w rule =
     (if checkRule mlc rule (w_stores w)
      then filter (\<lambda>i. \<not> selected (w_peers w ! i) \<and> mlc (store (w_peers w ! i)) (LabelConstraints rule))
             [0..<length (w_peers w)]
      else [])"

text \<open>The loop of \<open>compareBest\<close> that resets the rule fits after position \<open>index\<close>; an
  assignment past the end of \<open>RuleFits\<close> panics.\<close>

definition resetRuleFits :: "nat \<Rightarrow> nat \<Rightarrow> 'a option list \<Rightarrow> 'a option list option" where
  "resetRuleFits from n rfs =
     fold (\<lambda>i acc. acc \<bind> (\<lambda>xs. if i < length xs then Some (xs[i := None]) else None))
       [from..<n] (Some rfs)"

text \<open>\<open>fitRule\<close>, the loop of \<open>fixRuleWithCandidates\<close> and \<open>compareBest\<close> call each other. They
  are one recursive function on the call being made; the result is the returned flag and
  the worker after the call.\<close>

datatype 'c fitCall =
    FitRule nat "'c fitWorker"
  | FixRuleLoop "nat list" nat int "64 word" "64 word" bool "'c fitWorker"
  | CompareBest "nat list" nat "'c fitWorker"

partial_function (option) fitSearch ::
  "'c matchOracle \<Rightarrow> locationOracle \<Rightarrow> 'c fitCall \<Rightarrow> (bool \<times> 'c fitWorker) option" where
  "fitSearch mlc cmpl call =
     (case call of
        FitRule index w \<Rightarrow>
          if w_exit w then Some (False, w)
          else if index \<ge> length (w_rules w) then
            (if \<not> w_needIsolation w then
               (case RegionFit_IsSatisfied (w_bestFit w) of
                  None \<Rightarrow> None
                | Some sat \<Rightarrow> Some (False, if sat then w\<lparr>w_exit := True\<rparr> else w))
             else Some (False, w))
          else
            (let candidates = candidatesOf mlc w (w_rules w ! index);
                 cnt = (if int (length candidates) < Count (w_rules w ! index)
                          then int (length candidates) else Count (w_rules w ! index));
                 limit = push_bit (length candidates) (1 :: 64 word) - 1
             in if cnt < 0 then None
                else fitSearch mlc cmpl
                       (FixRuleLoop candidates index cnt limit
                          (push_bit (nat cnt) (1 :: 64 word) - 1) False w))
      | FixRuleLoop candidates index cnt limit binaryInt better w \<Rightarrow>
          if binaryInt \<le> limit then
            (if OnesCount binaryInt \<noteq> cnt
             then fitSearch mlc cmpl
                    (FixRuleLoop candidates index cnt limit (binaryInt + 1) better w)
             else
               (let (sel, ps) = pickPeersFromBinaryInt candidates binaryInt (w_peers w)
                in do {
                     (r, w1) \<leftarrow> fitSearch mlc cmpl (CompareBest sel index (w\<lparr>w_peers := ps\<rparr>));
                     let better1 = (r \<or> better);
                     let w2 = w1\<lparr>w_peers := unSelectPeers sel (w_peers w1)\<rparr>;
                     if w_exit w2 then Some (better1, w2)
                     else fitSearch mlc cmpl
                            (FixRuleLoop candidates index cnt limit (binaryInt + 1) better1 w2)
                   }))
          else Some (better, w)
      | CompareBest sel index w \<Rightarrow>
          if index \<ge> length (w_rules w) \<or> index \<ge> length (RuleFits (w_bestFit w)) then None
          else
            (let rf = newRuleFit cmpl (w_rules w ! index) (map (\<lambda>i. w_peers w ! i) sel);
                 cmp = (case RuleFits (w_bestFit w) ! index of
                          None \<Rightarrow> 1
                        | Some best \<Rightarrow> compareRuleFit rf best)
             in if cmp = 1 then
                  (case resetRuleFits (index + 1) (length (w_rules w))
                          ((RuleFits (w_bestFit w))[index := Some rf]) of
                     None \<Rightarrow> None
                   | Some rfs \<Rightarrow>
                       do {
                         (r, w1) \<leftarrow> fitSearch mlc cmpl
                                      (FitRule (index + 1) (w\<lparr>w_bestFit := (w_bestFit w)\<lparr>RuleFits := rfs\<rparr>\<rparr>));
                         Some (True, updateOrphanPeers (index + 1) w1)
                       })
                else if cmp = 0 then
                  do {
                    (r, w1) \<leftarrow> fitSearch mlc cmpl (FitRule (index + 1) w);
                    if r then
                      (if index < length (RuleFits (w_bestFit w1))
                       then Some (True, w1\<lparr>w_bestFit := (w_bestFit w1)
                                   \<lparr>RuleFits := (RuleFits (w_bestFit w1))[index := Some rf]\<rparr>\<rparr>)
                       else None)
                    else Some (False, w1)
                  }
                else Some (False, w)))"

declare fitSearch.simps [code]

text \<open>\<open>fitWorker.fitRule\<close>\<close>

definition fitRule :: "'c matchOracle \<Rightarrow> locationOracle \<Rightarrow> nat \<Rightarrow> 'c fitWorker \<Rightarrow> (bool \<times> 'c fitWorker) option" where
  "fitRule mlc cmpl index w = fitSearch mlc cmpl (FitRule index w)"

text \<open>\<open>fitWorker.fixRuleWithCandidates\<close>: a negative \<open>count\<close> panics in the shift.\<close>

definition fixRuleWithCandidates ::
  "'c matchOracle \<Rightarrow> locationOracle \<Rightarrow> nat list \<Rightarrow> nat \<Rightarrow> int \<Rightarrow> 'c fitWorker \<Rightarrow> (bool \<times> 'c fitWorker) option" where
  "fixRuleWithCandidates mlc cmpl candidates index cnt w =
     (if cnt < 0 then None
      else fitSearch mlc cmpl
             (FixRuleLoop candidates index cnt (push_bit (length candidates) (1 :: 64 word) - 1)
                (push_bit (nat cnt) (1 :: 64 word) - 1) False w))"

text \<open>\<open>fitWorker.compareBest\<close>\<close>

definition compareBest ::
  "'c matchOracle \<Rightarrow> locationOracle \<Rightarrow> nat list \<Rightarrow> nat \<Rightarrow> 'c fitWorker \<Rightarrow> (bool \<times> 'c fitWorker) option" where
  "compareBest mlc cmpl sel index w = fitSearch mlc cmpl (CompareBest sel index w)"

text \<open>\<open>fitWorker.run\<close>\<close>

definition run :: "'c matchOracle \<Rightarrow> locationOracle \<Rightarrow> 'c fitWorker \<Rightarrow> 'c fitWorker option" where
  "run mlc cmpl w =
     do { (r, w1) \<leftarrow> fitRule mlc cmpl 0 w; Some (updateOrphanPeers 0 w1) }"

text \<open>\<open>fitRegion\<close>\<close>

definition fitRegion ::
  "'c matchOracle \<Rightarrow> locationOracle \<Rightarrow> StoreInfo list \<Rightarrow> RegionInfo \<Rightarrow> 'c Rule list \<Rightarrow> 'c RegionFit option" where
  "fitRegion mlc cmpl stores region rs =
     do { w \<leftarrow> run mlc cmpl (newFitWorker stores region rs); Some (w_bestFit w) }"

section \<open>Location comparison\<close>

text \<open>\<open>StoreInfo.GetLabelValue\<close>. Modelled from the spec: the accessor is not part of the
  sources; it reads the value of a label key, empty when the store has no such label.\<close>

definition GetLabelValue :: "StoreInfo \<Rightarrow> string \<Rightarrow> string" where
  "GetLabelValue s key = (case map_of (Labels s) key of None \<Rightarrow> [] | Some v \<Rightarrow> v)"

text \<open>\<open>StoreInfo.CompareLocation\<close>. Modelled from the spec: the method is not part of the
  sources; it returns the most significant level (0 first) at which the location values of
  the two stores diverge, and \<open>-1\<close> when all labels match or the labels to compare are
  missing. A level where either store has no value is skipped; an unresolved store has no
  labels.\<close>

fun CompareLocation_loop :: "StoreInfo \<Rightarrow> StoreInfo \<Rightarrow> string list \<Rightarrow> int \<Rightarrow> int" where
  "CompareLocation_loop s other [] i = - 1"
| "CompareLocation_loop s other (key # keys) i =
     (let v1 = GetLabelValue s key; v2 = GetLabelValue other key
      in if v1 \<noteq> [] \<and> v2 \<noteq> [] \<and> v1 \<noteq> v2 then i
         else CompareLocation_loop s other keys (i + 1))"

definition CompareLocation :: locationOracle where
  "CompareLocation s other labels =
     (case s of
        None \<Rightarrow> - 1
      | Some a \<Rightarrow> (case other of None \<Rightarrow> - 1 | Some b \<Rightarrow> CompareLocation_loop a b labels 0))"

section \<open>Example data\<close>

text \<open>A voter peer \<open>i\<close> on store \<open>s\<close>, a rule without constraints, and rule fits holding
  given peers; the closed instances below are stated on them.\<close>

definition voterPeer :: "uint64 \<Rightarrow> uint64 \<Rightarrow> Peer" where
  "voterPeer i s = \<lparr>Id = i, StoreId = s, IsLearner = False, PeerIsWitness = False\<rparr>"

definition plainRule :: "int \<Rightarrow> PeerRoleType \<Rightarrow> string list \<Rightarrow> unit Rule" where
  "plainRule n r ls = \<lparr>Count = n, Role = r, LabelConstraints = (), LocationLabels = ls, IsWitness = False\<rparr>"

definition fitOf :: "unit Rule \<Rightarrow> Peer list \<Rightarrow> Peer list \<Rightarrow> real \<Rightarrow> unit RuleFit" where
  "fitOf r ps ds x = \<lparr>Rule = r, Peers = ps, PeersWithDifferentRole = ds, IsolationScore = x\<rparr>"

definition labelStore :: "uint64 \<Rightarrow> string \<Rightarrow> StoreInfo" where
  "labelStore i v = \<lparr>ID = i, Labels = [(''dc'', v)]\<rparr>"

definition fitPeerOn :: "Peer \<Rightarrow> StoreInfo \<Rightarrow> fitPeer" where
  "fitPeerOn p st = \<lparr>Peer = p, store = Some st, isLeader = False, selected = False\<rparr>"

definition witnessPeer :: "uint64 \<Rightarrow> uint64 \<Rightarrow> Peer" where
  "witnessPeer i s = \<lparr>Id = i, StoreId = s, IsLearner = False, PeerIsWitness = True\<rparr>"

text \<open>A constraint oracle for the instances: the constraint is a list of label pairs that
  the store must carry; an unresolved store matches nothing.\<close>

definition hasLabels :: "(string \<times> string) list matchOracle" where
  "hasLabels s c = (case s of None \<Rightarrow> False | Some st \<Rightarrow> list_all (\<lambda>kv. kv \<in> set (Labels st)) c)"

definition anyStore :: "unit matchOracle" where
  "anyStore s c = (s \<noteq> None)"

definition threePeers :: RegionInfo where
  "threePeers = \<lparr>GetPeers = [voterPeer 3 3, voterPeer 1 1, voterPeer 2 2],
                  GetLeader = Some (voterPeer 1 1), downPeers = [], pendingPeers = []\<rparr>"

definition threeStores :: "StoreInfo list" where
  "threeStores = [labelStore 1 ''1'', labelStore 2 ''2'', labelStore 3 ''3'']"

definition threeFit :: "unit RegionFit" where
  "threeFit = \<lparr>RuleFits = [Some (fitOf (plainRule 3 Voter [''dc''])
                                 [voterPeer 1 1, voterPeer 2 2, voterPeer 3 3] [] 3)],
               OrphanPeers = [], regionStores = threeStores,
               rules = [plainRule 3 Voter [''dc'']]\<rparr>"

section \<open>Properties of the fit result model\<close>

lemma allRuleFitsSatisfied_iff:
  "allRuleFitsSatisfied rs = Some True \<longleftrightarrow>
     (\<forall>x\<in>set rs. \<exists>rf. x = Some rf \<and> RuleFit_IsSatisfied rf)"
  by (induction rs rule: allRuleFitsSatisfied.induct) auto

lemma fitRegion_no_rules:
  "fitRegion mlc cmpl stores region [] =
     Some \<lparr>RuleFits = [],
           OrphanPeers = map Peer (filter (\<lambda>p. \<not> selected p)
                           (newFitPeer stores region (GetPeers region) [])),
           regionStores = [], rules = []\<rparr>"
  apply (simp add: fitRegion_def run_def fitRule_def)
  apply (subst fitSearch.simps)
  apply (simp add: newFitWorker_def RegionFit_IsSatisfied_def updateOrphanPeers_def)
  done

text \<open>
  C2. \<open>RegionFit.IsSatisfied\<close> returns true exactly when the list of rule fits is not empty,
  every entry is present with as many peers as the rule's \<open>Count\<close> and no peer with a
  different role, and there is no orphan peer. The fit of an empty rule list has no rule
  fits and is not satisfied.
\<close>

theorem RegionFit_IsSatisfied_iff:
  "(RegionFit_IsSatisfied f = Some True \<longleftrightarrow>
      RuleFits f \<noteq> [] \<and>
      (\<forall>x\<in>set (RuleFits f). \<exists>rf. x = Some rf \<and> int (length (Peers rf)) = Count (Rule rf)
                                 \<and> PeersWithDifferentRole rf = []) \<and>
      OrphanPeers f = [])
   \<and> (\<exists>fit. fitRegion mlc cmpl stores region [] = Some fit \<and> RuleFits fit = []
             \<and> RegionFit_IsSatisfied fit = Some False)"
proof -
  have "allRuleFitsSatisfied (RuleFits f) = Some True \<longleftrightarrow>
     (\<forall>x\<in>set (RuleFits f). \<exists>rf. x = Some rf \<and> int (length (Peers rf)) = Count (Rule rf)
                                \<and> PeersWithDifferentRole rf = [])"
    by (simp add: allRuleFitsSatisfied_iff RuleFit_IsSatisfied_def)
  then have first: "RegionFit_IsSatisfied f = Some True \<longleftrightarrow>
      RuleFits f \<noteq> [] \<and>
      (\<forall>x\<in>set (RuleFits f). \<exists>rf. x = Some rf \<and> int (length (Peers rf)) = Count (Rule rf)
                                 \<and> PeersWithDifferentRole rf = []) \<and>
      OrphanPeers f = []"
    by (auto simp: RegionFit_IsSatisfied_def split: option.splits bool.splits)
  have second: "\<exists>fit. fitRegion mlc cmpl stores region [] = Some fit \<and> RuleFits fit = []
             \<and> RegionFit_IsSatisfied fit = Some False"
    by (simp add: fitRegion_no_rules RegionFit_IsSatisfied_def)
  from first second show ?thesis by blast
qed

theorem RegionFit_IsSatisfied_iff_witness:
  "RegionFit_IsSatisfied
     \<lparr>RuleFits = [Some (fitOf (plainRule 1 Voter []) [voterPeer 1 1] [] 0)], OrphanPeers = [],
      regionStores = [], rules = [plainRule 1 Voter []]\<rparr> = Some True
   \<and> RegionFit_IsSatisfied
     \<lparr>RuleFits = [Some (fitOf (plainRule 2 Voter []) [voterPeer 1 1] [] 0)], OrphanPeers = [],
      regionStores = [], rules = [plainRule 2 Voter []]\<rparr> \<noteq> Some True"
  using RegionFit_IsSatisfied_iff
          [of "\<lparr>RuleFits = [Some (fitOf (plainRule 1 Voter []) [voterPeer 1 1] [] 0)], OrphanPeers = [],
                regionStores = [], rules = [plainRule 1 Voter []]\<rparr>", THEN conjunct1]
        RegionFit_IsSatisfied_iff
          [of "\<lparr>RuleFits = [Some (fitOf (plainRule 2 Voter []) [voterPeer 1 1] [] 0)], OrphanPeers = [],
                regionStores = [], rules = [plainRule 2 Voter []]\<rparr>", THEN conjunct1]
  by (simp add: fitOf_def plainRule_def)

text \<open>
  C4. \<open>compareRuleFit\<close> is a three-way comparison: more peers is better; with as many peers,
  fewer peers with a different role is better; with both equal, the higher isolation score
  is better; otherwise the two rule fits are equal.
\<close>

theorem compareRuleFit_priority:
  "(length (Peers a) > length (Peers b) \<longrightarrow> compareRuleFit a b = 1)
   \<and> (length (Peers a) < length (Peers b) \<longrightarrow> compareRuleFit a b = - 1)
   \<and> (length (Peers a) = length (Peers b)
        \<and> length (PeersWithDifferentRole a) < length (PeersWithDifferentRole b)
        \<longrightarrow> compareRuleFit a b = 1)
   \<and> (length (Peers a) = length (Peers b)
        \<and> length (PeersWithDifferentRole a) > length (PeersWithDifferentRole b)
        \<longrightarrow> compareRuleFit a b = - 1)
   \<and> (length (Peers a) = length (Peers b)
        \<and> length (PeersWithDifferentRole a) = length (PeersWithDifferentRole b)
        \<and> IsolationScore a > IsolationScore b \<longrightarrow> compareRuleFit a b = 1)
   \<and> (length (Peers a) = length (Peers b)
        \<and> length (PeersWithDifferentRole a) = length (PeersWithDifferentRole b)
        \<and> IsolationScore a < IsolationScore b \<longrightarrow> compareRuleFit a b = - 1)
   \<and> (length (Peers a) = length (Peers b)
        \<and> length (PeersWithDifferentRole a) = length (PeersWithDifferentRole b)
        \<and> IsolationScore a = IsolationScore b \<longrightarrow> compareRuleFit a b = 0)
   \<and> compareRuleFit a b \<in> {- 1, 0, 1}"
  by (simp add: compareRuleFit_def)

theorem compareRuleFit_priority_witness:
  "compareRuleFit (fitOf (plainRule 3 Voter []) [voterPeer 1 1, voterPeer 2 2] [voterPeer 1 1] 0)
                  (fitOf (plainRule 3 Voter []) [voterPeer 1 1] [] 5) = 1
   \<and> compareRuleFit (fitOf (plainRule 3 Voter []) [voterPeer 1 1] [] 5)
                  (fitOf (plainRule 3 Voter []) [voterPeer 1 1, voterPeer 2 2] [voterPeer 1 1] 0) = - 1
   \<and> compareRuleFit (fitOf (plainRule 3 Voter []) [voterPeer 1 1] [] 0)
                  (fitOf (plainRule 3 Voter []) [voterPeer 2 2] [voterPeer 2 2] 5) = 1
   \<and> compareRuleFit (fitOf (plainRule 3 Voter []) [voterPeer 2 2] [voterPeer 2 2] 5)
                  (fitOf (plainRule 3 Voter []) [voterPeer 1 1] [] 0) = - 1
   \<and> compareRuleFit (fitOf (plainRule 3 Voter []) [voterPeer 1 1] [] 2)
                  (fitOf (plainRule 3 Voter []) [voterPeer 2 2] [] 1) = 1
   \<and> compareRuleFit (fitOf (plainRule 3 Voter []) [voterPeer 2 2] [] 1)
                  (fitOf (plainRule 3 Voter []) [voterPeer 1 1] [] 2) = - 1
   \<and> compareRuleFit (fitOf (plainRule 3 Voter []) [voterPeer 1 1] [] 1)
                  (fitOf (plainRule 3 Voter []) [voterPeer 2 2] [] 1) = 0"
proof -
  have 1: "compareRuleFit (fitOf (plainRule 3 Voter []) [voterPeer 1 1, voterPeer 2 2] [voterPeer 1 1] 0)
                  (fitOf (plainRule 3 Voter []) [voterPeer 1 1] [] 5) = 1"
    using compareRuleFit_priority
          [where b = "fitOf (plainRule 3 Voter []) [voterPeer 1 1] [] 5" and a = "fitOf (plainRule 3 Voter []) [voterPeer 1 1, voterPeer 2 2] [voterPeer 1 1] 0"]
    by (simp add: fitOf_def)
  have 2: "compareRuleFit (fitOf (plainRule 3 Voter []) [voterPeer 1 1] [] 5)
                  (fitOf (plainRule 3 Voter []) [voterPeer 1 1, voterPeer 2 2] [voterPeer 1 1] 0) = - 1"
    using compareRuleFit_priority
          [where b = "fitOf (plainRule 3 Voter []) [voterPeer 1 1, voterPeer 2 2] [voterPeer 1 1] 0" and a = "fitOf (plainRule 3 Voter []) [voterPeer 1 1] [] 5"]
    by (simp add: fitOf_def)
  have 3: "compareRuleFit (fitOf (plainRule 3 Voter []) [voterPeer 1 1] [] 0)
                  (fitOf (plainRule 3 Voter []) [voterPeer 2 2] [voterPeer 2 2] 5) = 1"
    using compareRuleFit_priority
          [where b = "fitOf (plainRule 3 Voter []) [voterPeer 2 2] [voterPeer 2 2] 5" and a = "fitOf (plainRule 3 Voter []) [voterPeer 1 1] [] 0"]
    by (simp add: fitOf_def)
  have 4: "compareRuleFit (fitOf (plainRule 3 Voter []) [voterPeer 2 2] [voterPeer 2 2] 5)
                  (fitOf (plainRule 3 Voter []) [voterPeer 1 1] [] 0) = - 1"
    using compareRuleFit_priority
          [where b = "fitOf (plainRule 3 Voter []) [voterPeer 1 1] [] 0" and a = "fitOf (plainRule 3 Voter []) [voterPeer 2 2] [voterPeer 2 2] 5"]
    by (simp add: fitOf_def)
  have 5: "compareRuleFit (fitOf (plainRule 3 Voter []) [voterPeer 1 1] [] 2)
                  (fitOf (plainRule 3 Voter []) [voterPeer 2 2] [] 1) = 1"
    using compareRuleFit_priority
          [where b = "fitOf (plainRule 3 Voter []) [voterPeer 2 2] [] 1" and a = "fitOf (plainRule 3 Voter []) [voterPeer 1 1] [] 2"]
    by (simp add: fitOf_def)
  have 6: "compareRuleFit (fitOf (plainRule 3 Voter []) [voterPeer 2 2] [] 1)
                  (fitOf (plainRule 3 Voter []) [voterPeer 1 1] [] 2) = - 1"
    using compareRuleFit_priority
          [where b = "fitOf (plainRule 3 Voter []) [voterPeer 1 1] [] 2" and a = "fitOf (plainRule 3 Voter []) [voterPeer 2 2] [] 1"]
    by (simp add: fitOf_def)
  have 7: "compareRuleFit (fitOf (plainRule 3 Voter []) [voterPeer 1 1] [] 1)
                  (fitOf (plainRule 3 Voter []) [voterPeer 2 2] [] 1) = 0"
    using compareRuleFit_priority
          [where a = "fitOf (plainRule 3 Voter []) [voterPeer 1 1] [] 1" and b = "fitOf (plainRule 3 Voter []) [voterPeer 2 2] [] 1"]
    by (simp add: fitOf_def)
  from 1 2 3 4 5 6 7 show ?thesis by blast
qed

text \<open>
  C5. \<open>compareRuleFit\<close> is antisymmetric, \<open>compareRuleFit a b = - compareRuleFit b a\<close>, and
  transitive: when \<open>a\<close> is at least as good as \<open>b\<close> and \<open>b\<close> at least as good as \<open>c\<close>, then
  \<open>a\<close> is at least as good as \<open>c\<close>.
\<close>

theorem compareRuleFit_antisym_trans:
  "compareRuleFit a b = - compareRuleFit b a
   \<and> (compareRuleFit a b \<ge> 0 \<and> compareRuleFit b c \<ge> 0 \<longrightarrow> compareRuleFit a c \<ge> 0)"
  by (simp add: compareRuleFit_def split: if_splits)

theorem compareRuleFit_antisym_trans_witness:
  "compareRuleFit (fitOf (plainRule 3 Voter []) [voterPeer 1 1, voterPeer 2 2] [] 0)
                  (fitOf (plainRule 3 Voter []) [voterPeer 1 1] [] 7) \<ge> 0
   \<and> compareRuleFit (fitOf (plainRule 3 Voter []) [voterPeer 1 1] [] 7)
                  (fitOf (plainRule 3 Voter []) [voterPeer 1 1] [] 2) \<ge> 0
   \<and> compareRuleFit (fitOf (plainRule 3 Voter []) [voterPeer 1 1, voterPeer 2 2] [] 0)
                  (fitOf (plainRule 3 Voter []) [voterPeer 1 1] [] 2) \<ge> 0"
proof -
  have ab: "compareRuleFit (fitOf (plainRule 3 Voter []) [voterPeer 1 1, voterPeer 2 2] [] 0)
                  (fitOf (plainRule 3 Voter []) [voterPeer 1 1] [] 7) \<ge> 0"
    by (simp add: compareRuleFit_def fitOf_def)
  have bc: "compareRuleFit (fitOf (plainRule 3 Voter []) [voterPeer 1 1] [] 7)
                  (fitOf (plainRule 3 Voter []) [voterPeer 1 1] [] 2) \<ge> 0"
    by (simp add: compareRuleFit_def fitOf_def)
  from ab bc compareRuleFit_antisym_trans
          [of "fitOf (plainRule 3 Voter []) [voterPeer 1 1, voterPeer 2 2] [] 0"
              "fitOf (plainRule 3 Voter []) [voterPeer 1 1] [] 7"
              "fitOf (plainRule 3 Voter []) [voterPeer 1 1] [] 2"]
  show ?thesis by blast
qed

section \<open>Properties of rule fit construction and of the isolation scorer\<close>

lemma newRuleFit_loop_eq:
  "newRuleFit_loop rule ps rf =
     rf\<lparr>Peers := Peers rf @ map Peer ps,
        PeersWithDifferentRole := PeersWithDifferentRole rf @
          map Peer (filter (\<lambda>p. \<not> matchRoleStrict p (Role rule) \<or> (PeerIsWitness (Peer p) \<and> \<not> IsWitness rule)) ps)\<rparr>"
  by (induction ps arbitrary: rf) (auto simp: Let_def)

lemma newRuleFit_fields:
  "Rule (newRuleFit cmpl rule sel) = rule"
  "Peers (newRuleFit cmpl rule sel) = map Peer sel"
  "PeersWithDifferentRole (newRuleFit cmpl rule sel) =
     map Peer (filter (\<lambda>p. \<not> matchRoleStrict p (Role rule) \<or> (PeerIsWitness (Peer p) \<and> \<not> IsWitness rule)) sel)"
  "IsolationScore (newRuleFit cmpl rule sel) = isolationScore cmpl sel (LocationLabels rule)"
  by (simp_all add: newRuleFit_def newRuleFit_loop_eq)

lemma isolationScore_inner_eq:
  "isolationScore_inner cmpl labels p ps s = s + sum_list (map (pairScore cmpl labels p) ps)"
  by (induction ps arbitrary: s) auto

lemma isolationScore_outer_eq:
  "isolationScore_outer cmpl labels ps s =
     s + (\<Sum>i = 0..<length ps. \<Sum>j = Suc i..<length ps. pairScore cmpl labels (ps ! i) (ps ! j))"
proof (induction ps arbitrary: s)
  case Nil
  then show ?case by simp
next
  case (Cons p ps)
  have "(\<Sum>j = Suc 0..<Suc (length ps). pairScore cmpl labels p ((p # ps) ! j))
        = (\<Sum>j = 0..<length ps. pairScore cmpl labels p ((p # ps) ! Suc j))"
    by (rule sum.shift_bounds_Suc_ivl)
  moreover have "sum_list (map (pairScore cmpl labels p) ps)
        = (\<Sum>j = 0..<length ps. pairScore cmpl labels p (ps ! j))"
    by (auto simp: sum_list_sum_nth intro!: sum.cong)
  ultimately have inner: "sum_list (map (pairScore cmpl labels p) ps)
        = (\<Sum>j = Suc 0..<Suc (length ps). pairScore cmpl labels p ((p # ps) ! j))"
    by simp
  have rest: "(\<Sum>i = 0..<length ps. \<Sum>j = Suc i..<length ps. pairScore cmpl labels (ps ! i) (ps ! j))
        = (\<Sum>i = 0..<length ps. \<Sum>j = Suc (Suc i)..<Suc (length ps).
              pairScore cmpl labels ((p # ps) ! Suc i) ((p # ps) ! j))"
    by (simp only: sum.shift_bounds_Suc_ivl nth_Cons_Suc)
  have split: "(\<Sum>i = 0..<Suc (length ps). \<Sum>j = Suc i..<Suc (length ps).
                  pairScore cmpl labels ((p # ps) ! i) ((p # ps) ! j))
        = (\<Sum>j = Suc 0..<Suc (length ps). pairScore cmpl labels p ((p # ps) ! j))
          + (\<Sum>i = 0..<length ps. \<Sum>j = Suc (Suc i)..<Suc (length ps).
                pairScore cmpl labels ((p # ps) ! Suc i) ((p # ps) ! j))"
    by (simp add: sum.atLeast0_lessThan_Suc_shift del: sum.op_ivl_Suc)
  show ?case
    using Cons.IH[of "isolationScore_inner cmpl labels p ps s"] inner rest split
    by (simp add: isolationScore_inner_eq)
qed

lemma isolationScore_pairs_general:
  assumes "labels \<noteq> []"
  shows "isolationScore cmpl peers labels =
     (\<Sum>i = 0..<length peers. \<Sum>j = Suc i..<length peers. pairScore cmpl labels (peers ! i) (peers ! j))"
proof (cases "length peers \<le> 1")
  case True
  then have "length peers = 0 \<or> length peers = 1" by linarith
  then show ?thesis using True by (auto simp: isolationScore_def)
next
  case False
  then show ?thesis using assms by (simp add: isolationScore_def isolationScore_outer_eq)
qed

lemma CompareLocation_loop_range:
  "CompareLocation_loop a b ls k = - 1 \<or> (k \<le> CompareLocation_loop a b ls k \<and> CompareLocation_loop a b ls k < k + int (length ls))"
  by (induction ls arbitrary: k) (force simp: Let_def)+

lemma CompareLocation_range:
  "CompareLocation s t ls = - 1 \<or> (0 \<le> CompareLocation s t ls \<and> CompareLocation s t ls < int (length ls))"
  using CompareLocation_loop_range[of _ _ ls 0]
  by (auto simp: CompareLocation_def split: option.splits)

lemma CompareLocation_no_labels: "CompareLocation s t [] = - 1"
  by (simp add: CompareLocation_def split: option.splits)

lemma pairScore_CompareLocation:
  "pairScore CompareLocation labels p q =
     (let lvl = CompareLocation (store p) (store q) labels
      in if lvl = - 1 then 0 else 100 ^ nat (int (length labels) - lvl - 1))"
  using CompareLocation_range[of "store p" "store q" labels]
  by (auto simp: pairScore_def Let_def power_int_def)

text \<open>
  C3. With the location comparison of the stores, the isolation score is the sum, over the
  unordered pairs of peers, of \<open>100^(L-i-1)\<close> where \<open>i\<close> is the level at which the two stores
  diverge and \<open>L\<close> the number of labels; a pair without divergence adds nothing. A list of
  at most one peer scores 0 under every comparison. Three peers on stores labelled
  \<open>dc=1\<close>, \<open>dc=2\<close>, \<open>dc=3\<close> score 3 under the labels \<open>[dc]\<close>.
\<close>

theorem isolationScore_pairs:
  "isolationScore CompareLocation peers labels =
     (\<Sum>i = 0..<length peers. \<Sum>j = Suc i..<length peers.
        (let lvl = CompareLocation (store (peers ! i)) (store (peers ! j)) labels
         in if lvl = - 1 then 0 else 100 ^ nat (int (length labels) - lvl - 1)))
   \<and> (length peers \<le> 1 \<longrightarrow> isolationScore cmpl peers labels = 0)
   \<and> isolationScore CompareLocation
        [fitPeerOn (voterPeer 1 1) (labelStore 1 ''1''),
         fitPeerOn (voterPeer 2 2) (labelStore 2 ''2''),
         fitPeerOn (voterPeer 3 3) (labelStore 3 ''3'')] [''dc''] = 3"
proof -
  have general: "isolationScore CompareLocation peers labels =
     (\<Sum>i = 0..<length peers. \<Sum>j = Suc i..<length peers.
        (let lvl = CompareLocation (store (peers ! i)) (store (peers ! j)) labels
         in if lvl = - 1 then 0 else 100 ^ nat (int (length labels) - lvl - 1)))"
  proof (cases "labels = []")
    case True
    then show ?thesis by (simp add: isolationScore_def CompareLocation_no_labels)
  next
    case False
    show ?thesis
      using isolationScore_pairs_general[OF False, of CompareLocation peers]
      by (simp only: pairScore_CompareLocation)
  qed
  have small: "length peers \<le> 1 \<longrightarrow> isolationScore cmpl peers labels = 0"
    by (simp add: isolationScore_def)
  have concrete: "isolationScore CompareLocation
        [fitPeerOn (voterPeer 1 1) (labelStore 1 ''1''),
         fitPeerOn (voterPeer 2 2) (labelStore 2 ''2''),
         fitPeerOn (voterPeer 3 3) (labelStore 3 ''3'')] [''dc''] = 3"
    by (simp add: isolationScore_def pairScore_def CompareLocation_def GetLabelValue_def
          fitPeerOn_def labelStore_def Let_def)
  from general small concrete show ?thesis by blast
qed

theorem isolationScore_pairs_witness:
  "length [fitPeerOn (voterPeer 1 1) (labelStore 1 ''1'')] \<le> 1
   \<and> isolationScore CompareLocation [fitPeerOn (voterPeer 1 1) (labelStore 1 ''1'')] [''dc''] = 0"
  using isolationScore_pairs[where peers = "[fitPeerOn (voterPeer 1 1) (labelStore 1 ''1'')]"
          and cmpl = CompareLocation and labels = "[''dc'']", THEN conjunct2, THEN conjunct1]
  by simp

section \<open>Properties of the peer ordering, the replacement check and role matching\<close>

lemma mset_insertionStep: "mset (insertionStep lt x ys) = add_mset x (mset ys)"
  by (induction ys) auto

lemma mset_foldl_insertionStep:
  "mset (foldl (\<lambda>prefix x. insertionStep lt x prefix) acc xs) = mset acc + mset xs"
  by (induction xs arbitrary: acc) (auto simp: mset_insertionStep)

lemma mset_sortSlice: "mset (sortSlice lt xs) = mset xs"
  by (simp add: sortSlice_def mset_foldl_insertionStep)

lemma set_sortSlice: "set (sortSlice lt xs) = set xs"
  using mset_sortSlice[of lt xs] by (metis set_mset_mset)

lemma length_sortSlice: "length (sortSlice lt xs) = length xs"
  using mset_sortSlice[of lt xs] by (metis size_mset)

lemma makeFitPeer_plain:
  "makeFitPeer stores region [] p =
     \<lparr>Peer = p, store = getStoreByID stores (StoreId p),
      isLeader = (GetId (GetLeader region) = Id p), selected = False\<rparr>"
  by (simp add: makeFitPeer_def)

lemma makeFitPeer_replace:
  "makeFitPeer stores region [replaceFitPeerOpt src dst] p =
     \<lparr>Peer = p, store = (if StoreId p = src then dst else getStoreByID stores (StoreId p)),
      isLeader = (GetId (GetLeader region) = Id p), selected = False\<rparr>"
  by (simp add: makeFitPeer_def replaceFitPeerOpt_def)

lemma mset_newFitPeer:
  "mset (newFitPeer stores region ps opts) = image_mset (makeFitPeer stores region opts) (mset ps)"
  by (simp add: newFitPeer_def mset_sortSlice)

lemma set_newFitPeer:
  "set (newFitPeer stores region ps opts) = makeFitPeer stores region opts ` set ps"
  by (simp add: newFitPeer_def set_sortSlice)

lemma Peer_makeFitPeer_plain: "Peer (makeFitPeer stores region [] p) = p"
  by (simp add: makeFitPeer_plain)

lemma Peer_makeFitPeer_replace: "Peer (makeFitPeer stores region [replaceFitPeerOpt src dst] p) = p"
  by (simp add: makeFitPeer_replace)

lemma contain_peers_iff: "contain_peers ps sid \<longleftrightarrow> (\<exists>p\<in>set ps. StoreId p = sid)"
  by (induction ps) auto

lemma getRuleFitByStoreID_loop_present:
  "None \<notin> set rfs \<Longrightarrow>
   getRuleFitByStoreID_loop rfs sid =
     Some (find (\<lambda>rf. contain_peers (Peers rf) sid) (map the rfs))"
  by (induction rfs sid rule: getRuleFitByStoreID_loop.induct) auto

lemma find_absent:
  "None \<notin> set rfs \<Longrightarrow> \<forall>x\<in>set rfs. \<forall>rf. x = Some rf \<longrightarrow> \<not> P rf \<Longrightarrow> find P (map the rfs) = None"
  by (induction rfs) auto

text \<open>
  C6. On a fit without absent entries, \<open>Replace\<close> returns false when no rule fit has a peer
  on the source store. Otherwise the owner is the first rule fit with such a peer: the
  result is false when the destination store fails the owner's label constraints, true when
  the destination already hosts a peer of the owner, and otherwise true exactly when the
  isolation score of the owner's peers, rebuilt with the destination store in place of the
  source store, is at least the owner's isolation score. The rebuilt peers are the owner's
  peers, each on its resolved store unless it is hosted on the source store.
\<close>

theorem Replace_cases:
  "(None \<notin> set (RuleFits f) \<and>
      (\<forall>x\<in>set (RuleFits f). \<forall>rf. x = Some rf \<longrightarrow> (\<forall>p\<in>set (Peers rf). StoreId p \<noteq> srcStoreID))
      \<longrightarrow> Replace mlc cmpl f srcStoreID (Some dst) region = Some False)
   \<and> (None \<notin> set (RuleFits f) \<longrightarrow>
   (case find (\<lambda>rf. \<exists>p\<in>set (Peers rf). StoreId p = srcStoreID) (map the (RuleFits f)) of
      None \<Rightarrow> Replace mlc cmpl f srcStoreID (Some dst) region = Some False
    | Some fit \<Rightarrow>
        Replace mlc cmpl f srcStoreID (Some dst) region =
          Some (if \<not> mlc (Some dst) (LabelConstraints (Rule fit)) then False
                else if \<exists>p\<in>set (Peers fit). StoreId p = ID dst then True
                else IsolationScore fit \<le>
                       isolationScore cmpl
                         (newFitPeer (regionStores f) region (Peers fit)
                            [replaceFitPeerOpt srcStoreID (Some dst)])
                         (LocationLabels (Rule fit)))))
   \<and> mset (map Peer (newFitPeer stores region ps [replaceFitPeerOpt srcStoreID (Some dst)])) = mset ps
   \<and> (\<forall>q\<in>set (newFitPeer stores region ps [replaceFitPeerOpt srcStoreID (Some dst)]).
         store q = (if StoreId (Peer q) = srcStoreID then Some dst
                    else getStoreByID stores (StoreId (Peer q))))"
proof -
  have a: "None \<notin> set (RuleFits f) \<longrightarrow>
   (case find (\<lambda>rf. \<exists>p\<in>set (Peers rf). StoreId p = srcStoreID) (map the (RuleFits f)) of
      None \<Rightarrow> Replace mlc cmpl f srcStoreID (Some dst) region = Some False
    | Some fit \<Rightarrow>
        Replace mlc cmpl f srcStoreID (Some dst) region =
          Some (if \<not> mlc (Some dst) (LabelConstraints (Rule fit)) then False
                else if \<exists>p\<in>set (Peers fit). StoreId p = ID dst then True
                else IsolationScore fit \<le>
                       isolationScore cmpl
                         (newFitPeer (regionStores f) region (Peers fit)
                            [replaceFitPeerOpt srcStoreID (Some dst)])
                         (LocationLabels (Rule fit))))"
    by (auto simp: Replace_def getRuleFitByStoreID_def getRuleFitByStoreID_loop_present
          contain_def contain_peers_iff Let_def split: option.splits)
  have b: "mset (map Peer (newFitPeer stores region ps [replaceFitPeerOpt srcStoreID (Some dst)])) = mset ps"
  proof -
    have "mset (map Peer (newFitPeer stores region ps [replaceFitPeerOpt srcStoreID (Some dst)]))
          = image_mset (\<lambda>p. Peer (makeFitPeer stores region [replaceFitPeerOpt srcStoreID (Some dst)] p)) (mset ps)"
      by (simp add: mset_newFitPeer image_mset.compositionality comp_def)
    then show ?thesis by (simp add: Peer_makeFitPeer_replace)
  qed
  have c: "\<forall>q\<in>set (newFitPeer stores region ps [replaceFitPeerOpt srcStoreID (Some dst)]).
         store q = (if StoreId (Peer q) = srcStoreID then Some dst
                    else getStoreByID stores (StoreId (Peer q)))"
    by (auto simp: set_newFitPeer makeFitPeer_replace)
  have d: "None \<notin> set (RuleFits f) \<and>
      (\<forall>x\<in>set (RuleFits f). \<forall>rf. x = Some rf \<longrightarrow> (\<forall>p\<in>set (Peers rf). StoreId p \<noteq> srcStoreID))
      \<longrightarrow> Replace mlc cmpl f srcStoreID (Some dst) region = Some False"
  proof (intro impI, elim conjE)
    assume h1: "None \<notin> set (RuleFits f)"
      and h2: "\<forall>x\<in>set (RuleFits f). \<forall>rf. x = Some rf \<longrightarrow> (\<forall>p\<in>set (Peers rf). StoreId p \<noteq> srcStoreID)"
    from h2 have "\<forall>x\<in>set (RuleFits f). \<forall>rf. x = Some rf \<longrightarrow> \<not> (\<exists>p\<in>set (Peers rf). StoreId p = srcStoreID)"
      by simp
    with h1 have "find (\<lambda>rf. \<exists>p\<in>set (Peers rf). StoreId p = srcStoreID) (map the (RuleFits f)) = None"
      by (rule find_absent)
    with a h1 show "Replace mlc cmpl f srcStoreID (Some dst) region = Some False"
      by simp
  qed
  from a b c d show ?thesis by blast
qed

theorem Replace_cases_witness:
  "None \<notin> set (RuleFits threeFit)
   \<and> Replace anyStore CompareLocation threeFit 1 (Some (labelStore 4 ''4'')) threePeers = Some True
   \<and> Replace anyStore CompareLocation threeFit 1 (Some (labelStore 4 ''2'')) threePeers = Some False
   \<and> Replace anyStore CompareLocation threeFit 1 (Some (labelStore 2 ''2'')) threePeers = Some True
   \<and> Replace anyStore CompareLocation threeFit 9 (Some (labelStore 4 ''4'')) threePeers = Some False"
proof -
  have present: "None \<notin> set (RuleFits threeFit)"
    by (simp add: threeFit_def)
  have s4: "isolationScore CompareLocation
              (newFitPeer threeStores threePeers [voterPeer 1 1, voterPeer 2 2, voterPeer 3 3]
                 [replaceFitPeerOpt 1 (Some (labelStore 4 ''4''))]) [''dc''] = 3"
    by code_simp
  have s2: "isolationScore CompareLocation
              (newFitPeer threeStores threePeers [voterPeer 1 1, voterPeer 2 2, voterPeer 3 3]
                 [replaceFitPeerOpt 1 (Some (labelStore 4 ''2''))]) [''dc''] = 2"
    by code_simp
  have fits: "map the (RuleFits threeFit) = [fitOf (plainRule 3 Voter [''dc''])
                                 [voterPeer 1 1, voterPeer 2 2, voterPeer 3 3] [] 3]"
    by (simp add: threeFit_def)
  have ids: "StoreId (voterPeer 1 1) = 1" "StoreId (voterPeer 2 2) = 2" "StoreId (voterPeer 3 3) = 3"
    by (simp_all add: voterPeer_def)
  have flds: "Peers (fitOf (plainRule 3 Voter [''dc'']) [voterPeer 1 1, voterPeer 2 2, voterPeer 3 3] [] 3)
                = [voterPeer 1 1, voterPeer 2 2, voterPeer 3 3]"
     "IsolationScore (fitOf (plainRule 3 Voter [''dc'']) [voterPeer 1 1, voterPeer 2 2, voterPeer 3 3] [] 3) = 3"
     "LocationLabels (Rule (fitOf (plainRule 3 Voter [''dc'']) [voterPeer 1 1, voterPeer 2 2, voterPeer 3 3] [] 3)) = [''dc'']"
     "regionStores threeFit = threeStores"
    by (simp_all add: fitOf_def plainRule_def threeFit_def)
  have r1: "Replace anyStore CompareLocation threeFit 1 (Some (labelStore 4 ''4'')) threePeers = Some True"
    using Replace_cases[where f = threeFit and srcStoreID = 1 and dst = "labelStore 4 ''4''"
            and mlc = anyStore and cmpl = CompareLocation and region = threePeers,
            THEN conjunct2, THEN conjunct1] present s4
    by (simp add: fits ids flds anyStore_def labelStore_def)
  have r2: "Replace anyStore CompareLocation threeFit 1 (Some (labelStore 4 ''2'')) threePeers = Some False"
    using Replace_cases[where f = threeFit and srcStoreID = 1 and dst = "labelStore 4 ''2''"
            and mlc = anyStore and cmpl = CompareLocation and region = threePeers,
            THEN conjunct2, THEN conjunct1] present s2
    by (simp add: fits ids flds anyStore_def labelStore_def)
  have r3: "Replace anyStore CompareLocation threeFit 1 (Some (labelStore 2 ''2'')) threePeers = Some True"
    using Replace_cases[where f = threeFit and srcStoreID = 1 and dst = "labelStore 2 ''2''"
            and mlc = anyStore and cmpl = CompareLocation and region = threePeers,
            THEN conjunct2, THEN conjunct1] present
    by (simp add: fits ids flds anyStore_def labelStore_def)
  have r4: "Replace anyStore CompareLocation threeFit 9 (Some (labelStore 4 ''4'')) threePeers = Some False"
    using Replace_cases[where f = threeFit and srcStoreID = 9 and dst = "labelStore 4 ''4''"
            and mlc = anyStore and cmpl = CompareLocation and region = threePeers,
            THEN conjunct1] present
    by (simp add: threeFit_def fitOf_def voterPeer_def)
  from present r1 r2 r3 r4 show ?thesis by blast
qed

text \<open>
  C10. Role matching: a Voter rule accepts every peer that is not a learner, leader or not;
  a Leader rule accepts only the leader, which the peer ordering marks as the peer with the
  identifier of the region's leader; a Follower rule accepts the peers that are neither
  learner nor leader; a Learner rule accepts only learners. A witness peer under a rule that
  is not a witness rule is listed in \<open>PeersWithDifferentRole\<close> whatever its role.
\<close>

theorem matchRoleStrict_roles:
  "(matchRoleStrict p Voter \<longleftrightarrow> \<not> IsLearner (Peer p))
   \<and> (matchRoleStrict p Leader \<longleftrightarrow> isLeader p)
   \<and> (matchRoleStrict p Follower \<longleftrightarrow> \<not> IsLearner (Peer p) \<and> \<not> isLeader p)
   \<and> (matchRoleStrict p Learner \<longleftrightarrow> IsLearner (Peer p))
   \<and> (\<forall>q\<in>set (newFitPeer stores region ps []).
         isLeader q \<longleftrightarrow> GetId (GetLeader region) = Id (Peer q))
   \<and> (q \<in> set sel \<and> PeerIsWitness (Peer q) \<and> \<not> IsWitness rule
        \<longrightarrow> Peer q \<in> set (PeersWithDifferentRole (newRuleFit cmpl rule sel)))"
  by (auto simp: set_newFitPeer makeFitPeer_plain newRuleFit_fields)

theorem matchRoleStrict_roles_witness:
  "makeFitPeer threeStores threePeers [] (voterPeer 1 1)
     \<in> set (newFitPeer threeStores threePeers (GetPeers threePeers) [])
   \<and> isLeader (makeFitPeer threeStores threePeers [] (voterPeer 1 1))
   \<and> makeFitPeer threeStores threePeers [] (voterPeer 2 2)
     \<in> set (newFitPeer threeStores threePeers (GetPeers threePeers) [])
   \<and> \<not> isLeader (makeFitPeer threeStores threePeers [] (voterPeer 2 2))
   \<and> fitPeerOn (witnessPeer 1 1) (labelStore 1 ''1'') \<in> set [fitPeerOn (witnessPeer 1 1) (labelStore 1 ''1'')]
   \<and> PeerIsWitness (Peer (fitPeerOn (witnessPeer 1 1) (labelStore 1 ''1'')))
   \<and> \<not> IsWitness (plainRule 1 Voter [])
   \<and> matchRoleStrict (fitPeerOn (witnessPeer 1 1) (labelStore 1 ''1'')) Voter
   \<and> witnessPeer 1 1 \<in> set (PeersWithDifferentRole
         (newRuleFit CompareLocation (plainRule 1 Voter []) [fitPeerOn (witnessPeer 1 1) (labelStore 1 ''1'')]))"
proof -
  note inst = matchRoleStrict_roles[where p = "fitPeerOn (witnessPeer 1 1) (labelStore 1 ''1'')"
      and stores = threeStores and region = threePeers and ps = "GetPeers threePeers"
      and q = "fitPeerOn (witnessPeer 1 1) (labelStore 1 ''1'')"
      and sel = "[fitPeerOn (witnessPeer 1 1) (labelStore 1 ''1'')]"
      and rule = "plainRule 1 Voter []" and cmpl = CompareLocation]
  have pre: "fitPeerOn (witnessPeer 1 1) (labelStore 1 ''1'') \<in> set [fitPeerOn (witnessPeer 1 1) (labelStore 1 ''1'')]
     \<and> PeerIsWitness (Peer (fitPeerOn (witnessPeer 1 1) (labelStore 1 ''1'')))
     \<and> \<not> IsWitness (plainRule 1 Voter [])"
    by (simp add: fitPeerOn_def witnessPeer_def plainRule_def)
  have leader: "GetId (GetLeader threePeers) = 1"
    by (simp add: threePeers_def GetId_def voterPeer_def)
  have voter: "matchRoleStrict (fitPeerOn (witnessPeer 1 1) (labelStore 1 ''1'')) Voter"
    using inst by (simp add: fitPeerOn_def witnessPeer_def)
  have pw: "Peer (fitPeerOn (witnessPeer 1 1) (labelStore 1 ''1'')) = witnessPeer 1 1"
    by (simp add: fitPeerOn_def)
  have m1: "makeFitPeer threeStores threePeers [] (voterPeer 1 1)
     \<in> set (newFitPeer threeStores threePeers (GetPeers threePeers) [])"
    and m2: "makeFitPeer threeStores threePeers [] (voterPeer 2 2)
     \<in> set (newFitPeer threeStores threePeers (GetPeers threePeers) [])"
    by (simp_all add: set_newFitPeer threePeers_def)
  have i1: "Id (Peer (makeFitPeer threeStores threePeers [] (voterPeer 1 1))) = 1"
    and i2: "Id (Peer (makeFitPeer threeStores threePeers [] (voterPeer 2 2))) = 2"
    by (simp_all add: makeFitPeer_plain voterPeer_def)
  from inst m1 i1 leader have l1: "isLeader (makeFitPeer threeStores threePeers [] (voterPeer 1 1))"
    by metis
  have "(2::64 word) \<noteq> 1" by simp
  with inst m2 i2 leader have l2: "\<not> isLeader (makeFitPeer threeStores threePeers [] (voterPeer 2 2))"
    by metis
  from inst pre pw have b: "witnessPeer 1 1 \<in> set (PeersWithDifferentRole
         (newRuleFit CompareLocation (plainRule 1 Voter []) [fitPeerOn (witnessPeer 1 1) (labelStore 1 ''1'')]))"
    by metis
  from m1 m2 l1 l2 b pre voter show ?thesis by blast
qed

text \<open>
  C7 (amended). The peers with a different role of a constructed rule fit are the assigned
  peers that fail the strict role match or are witnesses while the rule is not a witness
  rule. When the rule is a witness rule or no assigned peer is a witness, they are exactly
  the assigned peers that fail the strict role match.
\<close>

theorem newRuleFit_different_role:
  "PeersWithDifferentRole (newRuleFit cmpl rule sel) =
     map Peer (filter (\<lambda>p. \<not> matchRoleStrict p (Role rule)
                            \<or> (PeerIsWitness (Peer p) \<and> \<not> IsWitness rule)) sel)
   \<and> Peers (newRuleFit cmpl rule sel) = map Peer sel
   \<and> (IsWitness rule \<or> (\<forall>p\<in>set sel. \<not> PeerIsWitness (Peer p)) \<longrightarrow>
        PeersWithDifferentRole (newRuleFit cmpl rule sel) =
          map Peer (filter (\<lambda>p. \<not> matchRoleStrict p (Role rule)) sel))"
proof -
  have "filter (\<lambda>p. \<not> matchRoleStrict p (Role rule) \<or> (PeerIsWitness (Peer p) \<and> \<not> IsWitness rule)) sel
        = filter (\<lambda>p. \<not> matchRoleStrict p (Role rule)) sel"
    if "IsWitness rule \<or> (\<forall>p\<in>set sel. \<not> PeerIsWitness (Peer p))"
    using that by (intro filter_cong) auto
  then show ?thesis by (simp add: newRuleFit_fields)
qed

theorem newRuleFit_different_role_witness:
  "\<not> PeerIsWitness (Peer (fitPeerOn (voterPeer 1 1) (labelStore 1 ''1'')))
   \<and> \<not> PeerIsWitness (Peer (fitPeerOn (voterPeer 2 2) (labelStore 2 ''2'')))
   \<and> PeersWithDifferentRole (newRuleFit CompareLocation (plainRule 1 Learner [])
         [fitPeerOn (voterPeer 1 1) (labelStore 1 ''1''), fitPeerOn (voterPeer 2 2) (labelStore 2 ''2'')])
       = [voterPeer 1 1, voterPeer 2 2]"
proof -
  have pre: "\<not> PeerIsWitness (Peer (fitPeerOn (voterPeer 1 1) (labelStore 1 ''1'')))"
     "\<not> PeerIsWitness (Peer (fitPeerOn (voterPeer 2 2) (labelStore 2 ''2'')))"
    by (simp_all add: fitPeerOn_def voterPeer_def)
  with newRuleFit_different_role[where cmpl = CompareLocation and rule = "plainRule 1 Learner []"
         and sel = "[fitPeerOn (voterPeer 1 1) (labelStore 1 ''1''), fitPeerOn (voterPeer 2 2) (labelStore 2 ''2'')]"]
  show ?thesis by (simp add: fitPeerOn_def voterPeer_def plainRule_def)
qed

text \<open>
  C7 as stated fails: a witness voter under a Voter rule that is not a witness rule matches
  the role and is still listed in \<open>PeersWithDifferentRole\<close>.
\<close>

theorem different_role_counterexample:
  "PeersWithDifferentRole (newRuleFit CompareLocation (plainRule 1 Voter [])
       [fitPeerOn (witnessPeer 1 1) (labelStore 1 ''1'')])
   \<noteq> map Peer (filter (\<lambda>p. \<not> matchRoleStrict p (Role (plainRule 1 Voter [])))
             [fitPeerOn (witnessPeer 1 1) (labelStore 1 ''1'')])"
  by (simp add: newRuleFit_fields fitPeerOn_def witnessPeer_def plainRule_def)

end
